theory Spec2Isabelle
  imports Main
begin

section \<open>Text, cells and frames\<close>

text \<open>
  The program (\<^verbatim>\<open>src/app.py\<close>) screens an uploaded table against two groups of reference
  sets. Python text is a list of code points; here a \<^typ>\<open>string\<close> holds one \<^typ>\<open>char\<close>
  per code point, so the model covers the code points 0 to 255, and \<open>lower\<close> and
  \<open>strip\<close> are Python's \<^verbatim>\<open>str.lower\<close> and \<^verbatim>\<open>str.strip\<close> on that range: the capitals
  are \<open>A\<close> to \<open>Z\<close> and the code points 192 to 222 except 215, each 32 below its small
  letter; the white space is 9 to 13, 28 to 32, 133 and 160.
\<close>

definition is_upper :: "char \<Rightarrow> bool" where
  "is_upper c =
     (let n = (of_char c :: nat)
      in (65 \<le> n \<and> n \<le> 90) \<or> (192 \<le> n \<and> n \<le> 222 \<and> n \<noteq> 215))"

definition lower_char :: "char \<Rightarrow> char" where
  "lower_char c = (if is_upper c then char_of (of_char c + (32::nat)) else c)"

definition lower :: "string \<Rightarrow> string" where
  "lower s = map lower_char s"

definition isspace :: "char \<Rightarrow> bool" where
  "isspace c =
     (let n = (of_char c :: nat)
      in (9 \<le> n \<and> n \<le> 13) \<or> (28 \<le> n \<and> n \<le> 32) \<or> n = 133 \<or> n = 160)"

definition strip :: "string \<Rightarrow> string" where
  "strip s = rev (dropWhile isspace (rev (dropWhile isspace s)))"

definition endswith :: "string \<Rightarrow> string \<Rightarrow> bool" where
  "endswith s suffix =
     (length suffix \<le> length s \<and> drop (length s - length suffix) s = suffix)"

text \<open>
  A cell of a table as pandas hands it to the program: Python's \<^verbatim>\<open>None\<close>, a missing value
  (\<^verbatim>\<open>NaN\<close>, for which \<^verbatim>\<open>pd.isna\<close> holds), or any other scalar. The program reads such a
  scalar only through \<^verbatim>\<open>str(text)\<close>, so it is kept as that text.
\<close>

datatype cell = PyNone | NaN | Text string

fun isna :: "cell \<Rightarrow> bool" where
  "isna PyNone = True"
| "isna NaN = True"
| "isna (Text s) = False"

fun str :: "cell \<Rightarrow> string" where
  "str PyNone = ''None''"
| "str NaN = ''nan''"
| "str (Text s) = s"

definition normalize_text :: "cell \<Rightarrow> string" where
  "normalize_text text =
     (if isna text \<or> text = PyNone \<or> lower (str text) = ''nan'' then ''''
      else strip (lower (str text)))"

text \<open>
  A table: its column labels, left to right, and its rows, top to bottom; a row gives the
  cell under each label. pandas makes the labels of a table it reads pairwise distinct.
\<close>

record frame =
  columns :: "string list"
  rows :: "(string \<Rightarrow> cell) list"

text \<open>A row written out as the list of its labelled cells; elsewhere it is missing.\<close>

definition row_of :: "(string \<times> cell) list \<Rightarrow> string \<Rightarrow> cell" where
  "row_of labelled c = (case map_of labelled c of Some v \<Rightarrow> v | None \<Rightarrow> NaN)"

text \<open>\<^verbatim>\<open>str(c).lower().strip()\<close>, the form in which a column label is compared.\<close>

definition header_key :: "string \<Rightarrow> string" where
  "header_key c = strip (lower c)"

section \<open>Reading a table\<close>

text \<open>
  Both the loader and the upload handler read a file the same way: a name ending in
  \<^verbatim>\<open>.csv\<close> is read as delimited text in UTF-8 and, when that raises, in Latin-1;
  any other name is read as a spreadsheet. What pandas makes of the bytes is outside the
  program: each reader either raises (\<open>None\<close>) or yields a table.
\<close>

datatype reader = CsvUtf8 | CsvLatin1 | Excel

definition read_table :: "string \<Rightarrow> (reader \<Rightarrow> frame option) \<Rightarrow> frame option" where
  "read_table filename rd =
     (if endswith filename ''.csv''
      then (case rd CsvUtf8 of Some df \<Rightarrow> Some df | None \<Rightarrow> rd CsvLatin1)
      else rd Excel)"

section \<open>The reference sets\<close>

definition DATABASE_FOLDER :: string where
  "DATABASE_FOLDER = ''database_files''"

definition IMNEO_FILES :: "string list" where
  "IMNEO_FILES = [''imneo.csv'', ''imneo1.xlsx'', ''imneo2.xlsx'']"

definition XCLIENT_FILES :: "string list" where
  "XCLIENT_FILES = [''xclient1.csv'', ''xclient2.csv'']"

text \<open>
  What the loader sees of its surroundings: which paths exist, what reading a path
  gives, and the environment variable \<^verbatim>\<open>RENDER\<close>.
\<close>

record world =
  exists :: "string \<Rightarrow> bool"
  reads :: "string \<Rightarrow> reader \<Rightarrow> frame option"
  environ_RENDER :: "string option"

text \<open>\<^verbatim>\<open>os.path.join\<close> on two components (POSIX): an absolute second component stands alone.\<close>

definition path_join :: "string \<Rightarrow> string \<Rightarrow> string" where
  "path_join a b =
     (case b of
        c # cs \<Rightarrow> if c = CHR ''/'' then b else a @ ''/'' @ b
      | [] \<Rightarrow> a @ ''/'')"

text \<open>
  After \<^verbatim>\<open>df.columns = [str(c).lower().strip() for c in df.columns]\<close> two labels may
  coincide, so a row of the loader is a list of labelled cells in which a label may occur
  more than once. \<^verbatim>\<open>key in row\<close> asks whether the label occurs; \<^verbatim>\<open>row[key]\<close> is the cell
  under a label that occurs once, a sub-series of all its cells when it occurs several
  times, and raises \<^verbatim>\<open>KeyError\<close> when it does not occur.
\<close>

type_synonym series = "(string \<times> cell) list"

datatype field = Scalar cell | Several "cell list"

datatype error = KeyError | ValueError

definition contains :: "series \<Rightarrow> string \<Rightarrow> bool" where
  "contains row key = (key \<in> set (map fst row))"

definition cells_under :: "series \<Rightarrow> string \<Rightarrow> cell list" where
  "cells_under row key = map snd (filter (\<lambda>p. fst p = key) row)"

definition getitem :: "series \<Rightarrow> string \<Rightarrow> error + field" where
  "getitem row key =
     (case cells_under row key of
        [] \<Rightarrow> Inl KeyError
      | [v] \<Rightarrow> Inr (Scalar v)
      | v # w # vs \<Rightarrow> Inr (Several (v # w # vs)))"

definition iterrows_renamed :: "frame \<Rightarrow> series list" where
  "iterrows_renamed df = map (\<lambda>r. map (\<lambda>c. (header_key c, r c)) (columns df)) (rows df)"

text \<open>The three header mappings of the loader, each an \<^verbatim>\<open>if\<close>/\<^verbatim>\<open>elif\<close> chain.\<close>

definition first_of :: "series \<Rightarrow> error + field" where
  "first_of row =
     (if contains row ''first name'' then getitem row ''first name''
      else if contains row ''voor naam'' then getitem row ''voor naam''
      else if contains row ''naam'' then getitem row ''naam''
      else Inr (Scalar (Text '''')))"

definition last_of :: "series \<Rightarrow> error + field" where
  "last_of row =
     (if contains row ''last name'' then getitem row ''last name''
      else if contains row ''achternaam'' then getitem row ''achternaam''
      else Inr (Scalar (Text '''')))"

definition company_of :: "series \<Rightarrow> error + field" where
  "company_of row =
     (if contains row ''company name'' then getitem row ''company name''
      else if contains row ''company'' then getitem row ''company''
      else if contains row ''huidig bedrijf'' then getitem row ''huidig bedrijf''
      else if contains row ''currrent company'' then getitem row ''currrent company''
      else if contains row ''current company'' then getitem row ''current company''
      else if contains row ''company table data'' then getitem row ''company table data''
      else Inr (Scalar (Text '''')))"

text \<open>
  \<^verbatim>\<open>normalize_text\<close> on what \<^verbatim>\<open>row[key]\<close> gave: on a sub-series \<^verbatim>\<open>pd.isna(text) or ...\<close>
  asks for the truth value of a series, which raises \<^verbatim>\<open>ValueError\<close>.
\<close>

definition normalize_field :: "field \<Rightarrow> error + string" where
  "normalize_field f =
     (case f of Scalar c \<Rightarrow> Inr (normalize_text c) | Several cs \<Rightarrow> Inl ValueError)"

type_synonym sets = "string set \<times> string set"

text \<open>
  The body of the loop over the rows of one file, on the pair \<open>(names_set, companies_set)\<close>.
  An exception leaves the loop with the sets as they are at that moment: the name of a
  row is already added when normalising its company raises.
\<close>

definition add_row :: "series \<Rightarrow> sets \<Rightarrow> error option \<times> sets" where
  "add_row row st =
     (case first_of row of Inl e \<Rightarrow> (Some e, st) | Inr first_v \<Rightarrow>
     (case last_of row of Inl e \<Rightarrow> (Some e, st) | Inr last_v \<Rightarrow>
     (case company_of row of Inl e \<Rightarrow> (Some e, st) | Inr company_v \<Rightarrow>
     (case normalize_field first_v of Inl e \<Rightarrow> (Some e, st) | Inr nf \<Rightarrow>
     (case normalize_field last_v of Inl e \<Rightarrow> (Some e, st) | Inr nl \<Rightarrow>
        (let full_name = strip (nf @ '' '' @ nl);
             names_set = (if full_name \<noteq> '''' then insert full_name (fst st) else fst st)
         in (case normalize_field company_v of
               Inl e \<Rightarrow> (Some e, (names_set, snd st))
             | Inr norm_company \<Rightarrow>
                 (None, (names_set,
                         if norm_company \<noteq> '''' then insert norm_company (snd st)
                         else snd st)))))))))"

fun add_rows :: "series list \<Rightarrow> sets \<Rightarrow> error option \<times> sets" where
  "add_rows [] st = (None, st)"
| "add_rows (row # rest) st =
     (case add_row row st of
        (Some e, st') \<Rightarrow> (Some e, st')
      | (None, st') \<Rightarrow> add_rows rest st')"

text \<open>
  One turn of the loop over the file names: a missing file is skipped, a file that cannot
  be read adds nothing, and an exception among the rows is caught and only printed, so
  the sets keep what was added before it.
\<close>

definition load_file :: "world \<Rightarrow> string \<Rightarrow> sets \<Rightarrow> sets" where
  "load_file w filename st =
     (let path = path_join DATABASE_FOLDER filename
      in if \<not> exists w path then st
         else case read_table filename (reads w path) of
                None \<Rightarrow> st
              | Some df \<Rightarrow> snd (add_rows (iterrows_renamed df) st))"

fun load_files :: "world \<Rightarrow> string list \<Rightarrow> sets \<Rightarrow> sets" where
  "load_files w [] st = st"
| "load_files w (name # rest) st = load_files w rest (load_file w name st)"

definition load_database_set :: "world \<Rightarrow> string list \<Rightarrow> sets" where
  "load_database_set w filenames =
     (if \<not> exists w DATABASE_FOLDER then ({}, {})
      else load_files w filenames ({}, {}))"

text \<open>The four sets the module builds when it is loaded.\<close>

record groups =
  imneo_names :: "string set"
  imneo_companies :: "string set"
  xclient_names :: "string set"
  xclient_companies :: "string set"

definition startup :: "world \<Rightarrow> groups" where
  "startup w =
     (if environ_RENDER w = None \<or> exists w DATABASE_FOLDER
      then (let imneo = load_database_set w IMNEO_FILES;
                xclient = load_database_set w XCLIENT_FILES
            in \<lparr>imneo_names = fst imneo, imneo_companies = snd imneo,
                xclient_names = fst xclient, xclient_companies = snd xclient\<rparr>)
      else \<lparr>imneo_names = {}, imneo_companies = {},
            xclient_names = {}, xclient_companies = {}\<rparr>)"

section \<open>Checking an uploaded table\<close>

text \<open>
  Column detection. \<^verbatim>\<open>next((c for c in df.columns if ...), None)\<close> is the leftmost label
  that passes the test, or \<^verbatim>\<open>None\<close>.
\<close>

definition first_name_col :: "frame \<Rightarrow> string option" where
  "first_name_col df =
     find (\<lambda>c. header_key c \<in> set [''first name'', ''voor naam'', ''naam'']) (columns df)"

definition last_name_col :: "frame \<Rightarrow> string option" where
  "last_name_col df =
     find (\<lambda>c. header_key c \<in> set [''last name'', ''achternaam'']) (columns df)"

definition possible_company_headers :: "string list" where
  "possible_company_headers =
     [''company table data'', ''company name'', ''huidig bedrijf'', ''company'', ''name'']"

text \<open>Python's truth value of a label or \<^verbatim>\<open>None\<close>: false for \<^verbatim>\<open>None\<close> and for the empty text.\<close>

fun truthy :: "string option \<Rightarrow> bool" where
  "truthy None = False"
| "truthy (Some c) = (c \<noteq> '''')"

fun company_col_loop :: "frame \<Rightarrow> string list \<Rightarrow> string option" where
  "company_col_loop df [] = None"
| "company_col_loop df (header # rest) =
     (let match = find (\<lambda>c. header_key c = header) (columns df)
      in if truthy match then match else company_col_loop df rest)"

definition company_col :: "frame \<Rightarrow> string option" where
  "company_col df = company_col_loop df possible_company_headers"

text \<open>The two keys of a row, given the detected columns.\<close>

definition user_name :: "string option \<Rightarrow> string option \<Rightarrow> (string \<Rightarrow> cell) \<Rightarrow> string" where
  "user_name fcol lcol row =
     (case (fcol, lcol) of
        (Some f, Some l) \<Rightarrow>
          if truthy fcol \<and> truthy lcol
          then strip (normalize_text (row f) @ '' '' @ normalize_text (row l))
          else ''''
      | _ \<Rightarrow> '''')"

definition user_company :: "string option \<Rightarrow> (string \<Rightarrow> cell) \<Rightarrow> string" where
  "user_company ccol row =
     (case ccol of
        Some c \<Rightarrow> if truthy ccol then normalize_text (row c) else ''''
      | None \<Rightarrow> '''')"

definition is_imneo :: "groups \<Rightarrow> string \<Rightarrow> string \<Rightarrow> bool" where
  "is_imneo g name company =
     ((name \<noteq> '''' \<and> name \<in> imneo_names g) \<or>
      (company \<noteq> '''' \<and> company \<in> imneo_companies g))"

definition is_xclient :: "groups \<Rightarrow> string \<Rightarrow> string \<Rightarrow> bool" where
  "is_xclient g name company =
     ((name \<noteq> '''' \<and> name \<in> xclient_names g) \<or>
      (company \<noteq> '''' \<and> company \<in> xclient_companies g))"

text \<open>The status and the colour code of one row: the body of the loop over the rows.\<close>

definition classify :: "groups \<Rightarrow> string option \<Rightarrow> string \<Rightarrow> string \<Rightarrow> string \<times> string" where
  "classify g mode name company =
     (if is_imneo g name company then (''IMNEO Match (Restricted)'', ''FF0000'')
      else if is_xclient g name company then
        (if mode = Some ''candidate'' then (''X-Client Match (Candidate Mode)'', ''FF0000'')
         else (''X-Client Match (Client/Relation)'', ''FFFF00''))
      else (''Safe'', ''FFFFFF''))"

definition check_row ::
  "groups \<Rightarrow> string option \<Rightarrow> frame \<Rightarrow> (string \<Rightarrow> cell) \<Rightarrow> string \<times> string" where
  "check_row g mode df row =
     classify g mode
       (user_name (first_name_col df) (last_name_col df) row)
       (user_company (company_col df) row)"

text \<open>The loop: each row appends its status to \<open>results\<close> and its colour to \<open>colors\<close>.\<close>

fun check_rows ::
  "groups \<Rightarrow> string option \<Rightarrow> frame \<Rightarrow> (string \<Rightarrow> cell) list \<Rightarrow>
   string list \<times> string list \<Rightarrow> string list \<times> string list" where
  "check_rows g m df [] acc = acc"
| "check_rows g m df (row # rest) (results, colors) =
     (case check_row g m df row of
        (status, color_code) \<Rightarrow>
          check_rows g m df rest (results @ [status], colors @ [color_code]))"

text \<open>
  The handler: the request may lack the file part or carry an empty file name (status
  400), reading the file may raise (status 500, with a message that ends in the text of
  the exception, left out here); otherwise the answer is the sheet, of which the model
  keeps the new column \<open>Check Result\<close> and the colour of each row.
\<close>

record upload =
  filename :: string
  content :: "reader \<Rightarrow> frame option"

record request =
  file_part :: "upload option"
  mode :: "string option"

datatype response =
    Refused string nat
  | Sheet "string list" "string list"

definition upload_file :: "groups \<Rightarrow> request \<Rightarrow> response" where
  "upload_file g req =
     (case file_part req of
        None \<Rightarrow> Refused ''No file uploaded'' 400
      | Some f \<Rightarrow>
          if filename f = '''' then Refused ''No file selected'' 400
          else (case read_table (filename f) (content f) of
                  None \<Rightarrow> Refused ''Error reading file'' 500
                | Some df \<Rightarrow>
                    (case check_rows g (mode req) df (rows df) ([], []) of
                       (results, colors) \<Rightarrow> Sheet results colors)))"

section \<open>The specification's reading of the header mappings\<close>

text \<open>
  The specification describes the loader's field extraction as first-match-wins over an
  ordered list of header aliases. These lists and \<open>first_match\<close> follow the
  specification's words; the theorems below compare them with \<open>first_of\<close>,
  \<open>last_of\<close> and \<open>company_of\<close>, which follow the source.
\<close>

definition first_name_priority :: "string list" where
  "first_name_priority = [''first name'', ''voor naam'', ''naam'']"

definition last_name_priority :: "string list" where
  "last_name_priority = [''last name'', ''achternaam'']"

definition company_field_priority :: "string list" where
  "company_field_priority =
     [''company name'', ''company'', ''huidig bedrijf'', ''currrent company'',
      ''current company'', ''company table data'']"

definition first_match :: "string list \<Rightarrow> series \<Rightarrow> string option" where
  "first_match priority row = find (contains row) priority"

section \<open>Auxiliary notions\<close>

text \<open>A text without white space at either end, and a pair of sets without the empty text.\<close>

definition stripped :: "string \<Rightarrow> bool" where
  "stripped s = (s = [] \<or> (\<not> isspace (hd s) \<and> \<not> isspace (last s)))"

definition no_empty :: "sets \<Rightarrow> bool" where
  "no_empty st = ('''' \<notin> fst st \<and> '''' \<notin> snd st)"

section \<open>Example data\<close>

definition example_groups :: groups where
  "example_groups =
     \<lparr>imneo_names = {''jane doe''}, imneo_companies = {},
      xclient_names = {''jane doe''}, xclient_companies = {''acme corp''}\<rparr>"

definition row_jane :: "string \<Rightarrow> cell" where
  "row_jane = row_of [(''First Name'', Text ''Jane''), (''Last Name'', Text ''Doe''),
                      (''Company'', Text ''Other Inc'')]"

definition row_bob :: "string \<Rightarrow> cell" where
  "row_bob = row_of [(''First Name'', Text ''Bob''), (''Last Name'', Text ''Jones''),
                     (''Company'', Text '' Acme Corp'')]"

definition row_blank :: "string \<Rightarrow> cell" where
  "row_blank = row_of [(''First Name'', NaN), (''Last Name'', Text ''  ''), (''Company'', PyNone)]"

definition example_frame :: frame where
  "example_frame =
     \<lparr>columns = [''First Name'', ''Last Name'', ''Company''],
      rows = [row_jane, row_bob, row_blank]\<rparr>"

definition example_upload :: upload where
  "example_upload =
     \<lparr>filename = ''list.csv'',
      content = (\<lambda>r. if r = CsvLatin1 then Some example_frame else None)\<rparr>"

definition example_request :: request where
  "example_request = \<lparr>file_part = Some example_upload, mode = Some ''client''\<rparr>"

definition first_only_frame :: frame where
  "first_only_frame = \<lparr>columns = [''First Name'', ''Company''], rows = [row_jane]\<rparr>"

definition row_three_names :: "string \<Rightarrow> cell" where
  "row_three_names = row_of [(''Naam'', Text ''Jane Doe''), (''First Name'', Text ''Jane''),
                             (''Last Name'', Text ''Doe'')]"

definition naam_first_frame :: frame where
  "naam_first_frame =
     \<lparr>columns = [''Naam'', ''First Name'', ''Last Name''], rows = [row_three_names]\<rparr>"

definition imneo_sheet :: frame where
  "imneo_sheet =
     \<lparr>columns = [''Voor Naam '', ''Company''],
      rows = [row_of [(''Voor Naam '', Text ''Jane''), (''Company'', NaN)]]\<rparr>"

definition xclient_sheet :: frame where
  "xclient_sheet =
     \<lparr>columns = [''Current Company'', ''Achternaam'', ''Company Name''],
      rows = [row_of [(''Current Company'', Text ''Zeta''), (''Achternaam'', Text ''Doe''),
                      (''Company Name'', Text ''Acme Corp'')]]\<rparr>"

definition absent_world :: world where
  "absent_world =
     \<lparr>exists = (\<lambda>p. False), reads = (\<lambda>p r. None), environ_RENDER = None\<rparr>"

definition example_world :: world where
  "example_world =
     \<lparr>exists = (\<lambda>p. p \<in> set [''database_files'', ''database_files/imneo1.xlsx'',
                               ''database_files/xclient2.csv'']),
      reads = (\<lambda>p r. if p = ''database_files/imneo1.xlsx'' \<and> r = Excel then Some imneo_sheet
                      else if p = ''database_files/xclient2.csv'' \<and> r = CsvLatin1
                      then Some xclient_sheet else None),
      environ_RENDER = None\<rparr>"

definition series_two_companies :: series where
  "series_two_companies =
     [(''company table data'', Text ''Zeta''), (''company'', Text ''Acme Corp''),
      (''naam'', Text ''Jane'')]"

definition series_no_company :: series where
  "series_no_company = [(''naam'', Text ''Jane''), (''name'', Text ''Zeta'')]"










section \<open>Lower case and stripping\<close>

lemma lower_char_idem: "lower_char (lower_char c) = lower_char c"
  unfolding lower_char_def is_upper_def Let_def
  by (auto simp: of_char_of [where ?'a = nat])

lemma isspace_lower_char: "isspace (lower_char c) = isspace c"
  unfolding lower_char_def is_upper_def isspace_def Let_def
  by auto

lemma lower_idem: "lower (lower s) = lower s"
  by (simp add: lower_def lower_char_idem)

lemma dropWhile_isspace_lower: "dropWhile isspace (lower s) = lower (dropWhile isspace s)"
  by (induction s) (simp_all add: lower_def isspace_lower_char)

lemma lower_rev: "lower (rev s) = rev (lower s)"
  by (simp add: lower_def rev_map)

lemma lower_strip: "lower (strip s) = strip (lower s)"
  by (simp add: strip_def dropWhile_isspace_lower lower_rev [symmetric])

lemma dropWhile_rev_last:
  assumes "s \<noteq> []" and "\<not> P (last s)"
  shows "dropWhile P (rev s) = rev s"
  using assms by (cases "rev s") (auto simp: hd_rev [symmetric])

lemma strip_stripped:
  assumes "stripped s"
  shows "strip s = s"
proof (cases s)
  case Nil
  then show ?thesis by (simp add: strip_def)
next
  case (Cons c cs)
  with assms have h: "\<not> isspace c" and l: "\<not> isspace (last s)"
    by (auto simp: stripped_def)
  from h Cons have "dropWhile isspace s = s" by simp
  moreover from Cons have "s \<noteq> []" by simp
  then have "dropWhile isspace (rev s) = rev s"
    using l by (rule dropWhile_rev_last)
  ultimately show ?thesis by (simp add: strip_def)
qed

lemma stripped_strip: "stripped (strip s)"
proof -
  define t where "t = dropWhile isspace s"
  define u where "u = dropWhile isspace (rev t)"
  have r: "strip s = rev u" by (simp add: strip_def t_def u_def)
  show ?thesis
  proof (cases "u = []")
    case True
    with r show ?thesis by (simp add: stripped_def)
  next
    case False
    then have hu: "\<not> isspace (hd u)" unfolding u_def by (metis hd_dropWhile)
    have "rev t = takeWhile isspace (rev t) @ u" by (simp add: u_def)
    then have "t = rev u @ rev (takeWhile isspace (rev t))"
      by (metis rev_append rev_rev_ident)
    with False have "hd t = hd (rev u)" and "t \<noteq> []"
      by (metis hd_append2 rev_is_Nil_conv, metis Nil_is_append_conv rev_is_Nil_conv)
    moreover from \<open>t \<noteq> []\<close> have "\<not> isspace (hd t)" unfolding t_def by (metis hd_dropWhile)
    ultimately have "\<not> isspace (hd (rev u))" by simp
    moreover from False hu have "\<not> isspace (last (rev u))" by (simp add: last_rev)
    ultimately show ?thesis using r by (simp add: stripped_def)
  qed
qed

lemma strip_idem: "strip (strip s) = strip s"
  by (rule strip_stripped [OF stripped_strip])





lemma normalize_text_twice:
  "normalize_text (Text (normalize_text x)) =
     (if normalize_text x = ''nan'' then '''' else normalize_text x)"
proof (cases "isna x \<or> x = PyNone \<or> lower (str x) = ''nan''")
  case True
  then have "normalize_text x = ''''" by (simp add: normalize_text_def)
  then show ?thesis by (simp add: normalize_text_def lower_def strip_def)
next
  case False
  then have y: "normalize_text x = strip (lower (str x))" by (simp add: normalize_text_def)
  have "lower (normalize_text x) = normalize_text x"
    by (simp add: y lower_strip lower_idem)
  then show ?thesis
    by (simp add: normalize_text_def [of "Text _"]) (simp add: y strip_idem)
qed

section \<open>Iterating over rows and files\<close>

lemma check_rows_acc:
  "check_rows g m df rs (results, colors) =
     (results @ map (\<lambda>r. fst (check_row g m df r)) rs,
      colors @ map (\<lambda>r. snd (check_row g m df r)) rs)"
  by (induction rs arbitrary: results colors) (simp_all split: prod.splits)

lemma load_files_append:
  "load_files w (xs @ ys) st = load_files w ys (load_files w xs st)"
  by (induction xs arbitrary: st) simp_all

lemma add_row_no_empty: "no_empty st \<Longrightarrow> no_empty (snd (add_row row st))"
  by (auto simp: add_row_def no_empty_def Let_def split: sum.splits)

lemma add_rows_no_empty: "no_empty st \<Longrightarrow> no_empty (snd (add_rows rs st))"
proof (induction rs arbitrary: st)
  case Nil
  then show ?case by simp
next
  case (Cons r rs)
  from Cons.prems have "no_empty (snd (add_row r st))" by (rule add_row_no_empty)
  with Cons.IH show ?case
    by (cases "add_row r st") (auto split: option.splits)
qed

lemma load_file_no_empty: "no_empty st \<Longrightarrow> no_empty (load_file w name st)"
  by (simp add: load_file_def Let_def add_rows_no_empty split: option.splits)

lemma load_files_no_empty: "no_empty st \<Longrightarrow> no_empty (load_files w names st)"
  by (induction names arbitrary: st) (simp_all add: load_file_no_empty)

lemma no_empty_start: "no_empty ({}, {})"
  by (simp add: no_empty_def)

lemma load_database_set_no_empty: "no_empty (load_database_set w names)"
  by (simp add: load_database_set_def load_files_no_empty no_empty_start)

lemma classify_empty_keys: "classify g m '''' '''' = (''Safe'', ''FFFFFF'')"
  by (simp add: classify_def is_imneo_def is_xclient_def)

section \<open>Looking up a label\<close>

lemma cells_under_contains: "contains row key \<Longrightarrow> cells_under row key \<noteq> []"
  by (auto simp: contains_def cells_under_def filter_empty_conv)

lemma contains_cells_under: "cells_under row key \<noteq> [] \<Longrightarrow> contains row key"
  by (auto simp: contains_def cells_under_def filter_empty_conv rev_image_eqI)

lemma cells_under_distinct:
  "distinct (map fst row) \<Longrightarrow> (key, v) \<in> set row \<Longrightarrow> cells_under row key = [v]"
proof (induction row)
  case Nil
  then show ?case by simp
next
  case (Cons p row)
  show ?case
  proof (cases "fst p = key")
    case True
    with Cons.prems have "p = (key, v)" by (cases p) (auto simp: rev_image_eqI)
    moreover from True Cons.prems have "filter (\<lambda>q. fst q = key) row = []"
      by (auto simp: filter_empty_conv rev_image_eqI)
    ultimately show ?thesis by (simp add: cells_under_def)
  next
    case False
    with Cons.prems have "(key, v) \<in> set row" by auto
    with Cons have "cells_under row key = [v]" by simp
    with False show ?thesis by (simp add: cells_under_def)
  qed
qed

lemma getitem_single: "cells_under row key = [v] \<Longrightarrow> getitem row key = Inr (Scalar v)"
  by (simp add: getitem_def)

lemma getitem_no_KeyError: "contains row key \<Longrightarrow> getitem row key \<noteq> Inl e"
  using cells_under_contains [of row key]
  by (auto simp: getitem_def split: list.splits)

section \<open>The header mappings are first matches\<close>

lemma find_is_leftmost:
  "find P xs = Some x \<longleftrightarrow> (\<exists>i < length xs. xs ! i = x \<and> P x \<and> (\<forall>j < i. \<not> P (xs ! j)))"
  by (auto simp: find_Some_iff)

lemma first_of_first_match:
  "first_of row =
     (case first_match first_name_priority row of
        None \<Rightarrow> Inr (Scalar (Text '''')) | Some a \<Rightarrow> getitem row a)"
  by (simp add: first_of_def first_match_def first_name_priority_def)

lemma last_of_first_match:
  "last_of row =
     (case first_match last_name_priority row of
        None \<Rightarrow> Inr (Scalar (Text '''')) | Some a \<Rightarrow> getitem row a)"
  by (simp add: last_of_def first_match_def last_name_priority_def)

lemma company_of_first_match:
  "company_of row =
     (case first_match company_field_priority row of
        None \<Rightarrow> Inr (Scalar (Text '''')) | Some a \<Rightarrow> getitem row a)"
  by (simp add: company_of_def first_match_def company_field_priority_def)

lemma first_match_contains: "first_match priority row = Some a \<Longrightarrow> contains row a"
  by (auto simp: first_match_def find_Some_iff)

section \<open>What a row adds to the names\<close>





lemma getitem_distinct_scalar:
  assumes "distinct (map fst row)" and "contains row key"
  shows "\<exists>v. getitem row key = Inr (Scalar v)"
proof -
  from assms(2) obtain v where "(key, v) \<in> set row"
    by (auto simp: contains_def)
  with assms(1) have "cells_under row key = [v]" by (rule cells_under_distinct)
  then show ?thesis by (auto simp: getitem_single)
qed

lemma scalar_fields_distinct:
  assumes "distinct (map fst row)"
  shows "(\<exists>v. first_of row = Inr (Scalar v)) \<and> (\<exists>v. last_of row = Inr (Scalar v)) \<and>
         (\<exists>v. company_of row = Inr (Scalar v))"
proof (intro conjI)
  show "\<exists>v. first_of row = Inr (Scalar v)"
    using getitem_distinct_scalar [OF assms] first_match_contains [of first_name_priority row]
    by (cases "first_match first_name_priority row") (simp_all add: first_of_first_match)
  show "\<exists>v. last_of row = Inr (Scalar v)"
    using getitem_distinct_scalar [OF assms] first_match_contains [of last_name_priority row]
    by (cases "first_match last_name_priority row") (simp_all add: last_of_first_match)
  show "\<exists>v. company_of row = Inr (Scalar v)"
    using getitem_distinct_scalar [OF assms] first_match_contains [of company_field_priority row]
    by (cases "first_match company_field_priority row") (simp_all add: company_of_first_match)
qed

lemma add_row_distinct_no_error:
  assumes "distinct (map fst row)"
  shows "fst (add_row row st) = None"
proof -
  from scalar_fields_distinct [OF assms] obtain a b c
    where "first_of row = Inr (Scalar a)" "last_of row = Inr (Scalar b)"
      "company_of row = Inr (Scalar c)" by blast
  then show ?thesis by (simp add: add_row_def normalize_field_def Let_def)
qed

lemma add_rows_distinct_no_error:
  "\<forall>r \<in> set rs. distinct (map fst r) \<Longrightarrow> fst (add_rows rs st) = None"
proof (induction rs arbitrary: st)
  case Nil
  show ?case by simp
next
  case (Cons r rs)
  from Cons.prems have "fst (add_row r st) = None"
    by (simp add: add_row_distinct_no_error)
  then obtain s where "add_row r st = (None, s)" by (cases "add_row r st") simp
  with Cons show ?case by simp
qed

lemma iterrows_renamed_labels:
  "row \<in> set (iterrows_renamed df) \<Longrightarrow> map fst row = map header_key (columns df)"
  by (auto simp: iterrows_renamed_def comp_def)


lemma company_of_never_raises: "company_of row \<noteq> Inl e"
proof (cases "first_match company_field_priority row")
  case None
  then show ?thesis by (simp add: company_of_first_match)
next
  case (Some a)
  then show ?thesis
    by (simp add: company_of_first_match getitem_no_KeyError first_match_contains)
qed







section \<open>The claims\<close>

text \<open>
  C1. For every row and every mode, when the row's derived key matches IMNEO (its
  non-empty user name is in the IMNEO names, or its non-empty user company is in the
  IMNEO companies), the row is given the status \<open>IMNEO Match (Restricted)\<close> and the
  colour \<open>FF0000\<close>, whether or not the key also matches X-CLIENT; so such a row never
  gets an X-CLIENT status.
\<close>

theorem imneo_match_precedence:
  assumes "n = user_name (first_name_col df) (last_name_col df) row"
    and "c = user_company (company_col df) row"
    and "(n \<noteq> '''' \<and> n \<in> imneo_names g) \<or> (c \<noteq> '''' \<and> c \<in> imneo_companies g)"
  shows "check_row g m df row = (''IMNEO Match (Restricted)'', ''FF0000'') \<and>
         fst (check_row g m df row) \<noteq> ''X-Client Match (Candidate Mode)'' \<and>
         fst (check_row g m df row) \<noteq> ''X-Client Match (Client/Relation)''"
  using assms by (simp add: check_row_def classify_def is_imneo_def)

theorem imneo_match_precedence_witness:
  "(''jane doe'' \<noteq> '''' \<and> ''jane doe'' \<in> imneo_names example_groups) \<and>
   (''jane doe'' \<noteq> '''' \<and> ''jane doe'' \<in> xclient_names example_groups) \<and>
   check_row example_groups (Some ''candidate'') example_frame row_jane =
     (''IMNEO Match (Restricted)'', ''FF0000'')"
proof -
  have n: "''jane doe'' =
      user_name (first_name_col example_frame) (last_name_col example_frame) row_jane"
    by code_simp
  have c: "''other inc'' = user_company (company_col example_frame) row_jane"
    by code_simp
  have i: "''jane doe'' \<noteq> '''' \<and> ''jane doe'' \<in> imneo_names example_groups"
    by code_simp
  have x: "''jane doe'' \<noteq> '''' \<and> ''jane doe'' \<in> xclient_names example_groups"
    by code_simp
  from i have h: "(''jane doe'' \<noteq> '''' \<and> ''jane doe'' \<in> imneo_names example_groups) \<or>
      (''other inc'' \<noteq> '''' \<and> ''other inc'' \<in> imneo_companies example_groups)" ..
  from i x imneo_match_precedence [OF n c h, of "Some ''candidate''"] show ?thesis
    by blast
qed

text \<open>
  C2. For every row whose derived key matches X-CLIENT and not IMNEO: under the mode
  \<open>candidate\<close> the row is given the status \<open>X-Client Match (Candidate Mode)\<close> and the
  colour \<open>FF0000\<close>; under any other mode, also a missing one, the status
  \<open>X-Client Match (Client/Relation)\<close> and the colour \<open>FFFF00\<close>.
\<close>

theorem xclient_match_mode:
  assumes "n = user_name (first_name_col df) (last_name_col df) row"
    and "c = user_company (company_col df) row"
    and "\<not> ((n \<noteq> '''' \<and> n \<in> imneo_names g) \<or> (c \<noteq> '''' \<and> c \<in> imneo_companies g))"
    and "(n \<noteq> '''' \<and> n \<in> xclient_names g) \<or> (c \<noteq> '''' \<and> c \<in> xclient_companies g)"
  shows "check_row g m df row =
           (if m = Some ''candidate'' then (''X-Client Match (Candidate Mode)'', ''FF0000'')
            else (''X-Client Match (Client/Relation)'', ''FFFF00''))"
  using assms by (auto simp: check_row_def classify_def is_imneo_def is_xclient_def)

theorem xclient_match_mode_witness:
  "check_row example_groups (Some ''candidate'') example_frame row_bob =
     (''X-Client Match (Candidate Mode)'', ''FF0000'') \<and>
   check_row example_groups (Some ''client'') example_frame row_bob =
     (''X-Client Match (Client/Relation)'', ''FFFF00'') \<and>
   check_row example_groups None example_frame row_bob =
     (''X-Client Match (Client/Relation)'', ''FFFF00'')"
proof -
  have n: "''bob jones'' =
      user_name (first_name_col example_frame) (last_name_col example_frame) row_bob"
    by code_simp
  have c: "''acme corp'' = user_company (company_col example_frame) row_bob"
    by code_simp
  have i: "\<not> ((''bob jones'' \<noteq> '''' \<and> ''bob jones'' \<in> imneo_names example_groups) \<or>
      (''acme corp'' \<noteq> '''' \<and> ''acme corp'' \<in> imneo_companies example_groups))"
    by code_simp
  have x: "(''bob jones'' \<noteq> '''' \<and> ''bob jones'' \<in> xclient_names example_groups) \<or>
      (''acme corp'' \<noteq> '''' \<and> ''acme corp'' \<in> xclient_companies example_groups)"
    by code_simp
  note t = xclient_match_mode [OF n c i x]
  from t [of "Some ''candidate''"] t [of "Some ''client''"] t [of None] show ?thesis
    by simp
qed

text \<open>
  C9. For every uploaded table that is read, the answer holds exactly one status and one
  colour for each row of the table, and the status and colour at position \<open>i\<close> are those
  of the row at position \<open>i\<close>.
\<close>

theorem upload_file_one_result_per_row:
  assumes "file_part req = Some f" and "filename f \<noteq> ''''"
    and "read_table (filename f) (content f) = Some df"
  shows "\<exists>results colors. upload_file g req = Sheet results colors \<and>
           length results = length (rows df) \<and> length colors = length (rows df) \<and>
           (\<forall>i < length (rows df).
              (results ! i, colors ! i) = check_row g (mode req) df (rows df ! i))"
  using assms by (simp add: upload_file_def check_rows_acc)

theorem upload_file_one_result_per_row_witness:
  "upload_file example_groups example_request =
     Sheet [''IMNEO Match (Restricted)'', ''X-Client Match (Client/Relation)'', ''Safe'']
           [''FF0000'', ''FFFF00'', ''FFFFFF''] \<and>
   length (rows example_frame) = 3 \<and>
   check_row example_groups (Some ''client'') example_frame (rows example_frame ! 1) =
     (''X-Client Match (Client/Relation)'', ''FFFF00'')"
proof -
  have f: "file_part example_request = Some example_upload"
    by (simp add: example_request_def)
  have n: "filename example_upload \<noteq> ''''"
    by (simp add: example_upload_def)
  have r: "read_table (filename example_upload) (content example_upload) = Some example_frame"
    by (simp add: example_upload_def read_table_def endswith_def)
  have u: "upload_file example_groups example_request =
     Sheet [''IMNEO Match (Restricted)'', ''X-Client Match (Client/Relation)'', ''Safe'']
           [''FF0000'', ''FFFF00'', ''FFFFFF'']"
    by code_simp
  have l: "length (rows example_frame) = 3"
    by (simp add: example_frame_def)
  have m: "mode example_request = Some ''client''"
    by (simp add: example_request_def)
  from upload_file_one_result_per_row [OF f n r, of example_groups]
  obtain results colors
    where s: "upload_file example_groups example_request = Sheet results colors"
      and a: "\<forall>i < length (rows example_frame).
        (results ! i, colors ! i) =
          check_row example_groups (mode example_request) example_frame
            (rows example_frame ! i)"
    by blast
  from s u
  have "results = [''IMNEO Match (Restricted)'', ''X-Client Match (Client/Relation)'', ''Safe'']"
    and "colors = [''FF0000'', ''FFFF00'', ''FFFFFF'']"
    by simp_all
  with a l m
  have "check_row example_groups (Some ''client'') example_frame (rows example_frame ! 1) =
     (''X-Client Match (Client/Relation)'', ''FFFF00'')"
    by (metis nth_Cons_0 nth_Cons_Suc One_nat_def lessI less_SucI numeral_3_eq_3)
  with u l show ?thesis by blast
qed

text \<open>
  C3, as stated, fails: the claim says that with a first-name column and no last-name
  column the user name of a row is its first name alone. The handler builds the user name
  only under \<^verbatim>\<open>if first_name_col and last_name_col\<close>; in the table below, which has a
  first-name column only, the row of Jane has the empty user name, not \<open>jane\<close>.
\<close>

theorem user_name_single_column_counterexample:
  "first_name_col first_only_frame = Some ''First Name'' \<and>
   last_name_col first_only_frame = None \<and>
   strip (normalize_text (row_jane ''First Name'') @ '' '' @ '''') = ''jane'' \<and>
   user_name (first_name_col first_only_frame) (last_name_col first_only_frame) row_jane = '''' \<and>
   user_name (first_name_col first_only_frame) (last_name_col first_only_frame) row_jane \<noteq>
     strip (normalize_text (row_jane ''First Name'') @ '' '' @ '''')"
  by code_simp

text \<open>
  C3, amended. For every uploaded table in which the first-name column or the last-name
  column is not detected, the user name of every row is empty: the name key is derived
  only when both columns are detected.
\<close>

theorem user_name_needs_both_columns:
  assumes "first_name_col df = None \<or> last_name_col df = None"
  shows "user_name (first_name_col df) (last_name_col df) row = ''''"
  using assms by (auto simp: user_name_def split: option.splits)

theorem user_name_needs_both_columns_witness:
  "(first_name_col first_only_frame = None \<or> last_name_col first_only_frame = None) \<and>
   user_name (first_name_col first_only_frame) (last_name_col first_only_frame) row_jane = ''''"
proof -
  have "last_name_col first_only_frame = None" by code_simp
  then have h: "first_name_col first_only_frame = None \<or> last_name_col first_only_frame = None" ..
  from h user_name_needs_both_columns [OF h, of row_jane] show ?thesis by blast
qed

text \<open>
  C4, as stated, fails: \<open>normalize_text\<close> compares the lower-cased text with \<open>nan\<close>
  before it strips it, so the text \<open>nan\<close> between two blanks is normalised to \<open>nan\<close>,
  and \<open>nan\<close> is normalised to the empty text.
\<close>

theorem normalize_text_not_idempotent_counterexample:
  "normalize_text (Text (normalize_text (Text '' nan ''))) \<noteq> normalize_text (Text '' nan '')"
  by code_simp

text \<open>
  C4, amended. Normalising twice gives the same as normalising once for every input
  whose normalised text is not \<open>nan\<close>; when it is \<open>nan\<close>, the second pass gives the
  empty text. \<^verbatim>\<open>None\<close>, a missing value, the text \<open>NaN\<close> and the empty text are all
  normalised to the empty text.
\<close>

theorem normalize_text_idempotent_unless_nan:
  "(normalize_text x \<noteq> ''nan'' \<longrightarrow>
      normalize_text (Text (normalize_text x)) = normalize_text x) \<and>
   (normalize_text x = ''nan'' \<longrightarrow> normalize_text (Text (normalize_text x)) = '''') \<and>
   normalize_text PyNone = '''' \<and> normalize_text (Text ''NaN'') = '''' \<and>
   normalize_text (Text '''') = '''' \<and> normalize_text NaN = ''''"
proof -
  have "normalize_text (Text ''NaN'') = ''''" by code_simp
  moreover have "normalize_text (Text '''') = ''''" by code_simp
  moreover have "normalize_text (Text ''nan'') = ''''" by code_simp
  moreover have "normalize_text PyNone = ''''" "normalize_text NaN = ''''"
    by (simp_all add: normalize_text_def)
  ultimately show ?thesis by (simp add: normalize_text_twice)
qed

theorem normalize_text_idempotent_unless_nan_witness:
  "normalize_text (Text '' Jane DOE '') \<noteq> ''nan'' \<and>
   normalize_text (Text (normalize_text (Text '' Jane DOE ''))) = ''jane doe'' \<and>
   normalize_text (Text '' NaN '') = ''nan'' \<and>
   normalize_text (Text (normalize_text (Text '' NaN ''))) = ''''"
proof -
  have a: "normalize_text (Text '' Jane DOE '') = ''jane doe''" by code_simp
  have b: "normalize_text (Text '' NaN '') = ''nan''" by code_simp
  from a have a': "normalize_text (Text '' Jane DOE '') \<noteq> ''nan''" by simp
  from normalize_text_idempotent_unless_nan [of "Text '' Jane DOE ''"] a'
  have "normalize_text (Text (normalize_text (Text '' Jane DOE ''))) =
        normalize_text (Text '' Jane DOE '')" by blast
  moreover from normalize_text_idempotent_unless_nan [of "Text '' NaN ''"] b
  have "normalize_text (Text (normalize_text (Text '' NaN ''))) = ''''" by blast
  ultimately show ?thesis using a a' b by simp
qed

text \<open>
  C5, as stated, fails: the claim says that among several first-name columns the one
  whose header is the alias earliest in \<open>first name\<close>, \<open>voor naam\<close>, \<open>naam\<close> is used. The
  handler takes the leftmost column whose header is any of the three: in the table below
  the column \<open>Naam\<close> stands before the column \<open>First Name\<close> and is the one used.
\<close>

theorem first_name_col_priority_counterexample:
  "header_key ''First Name'' = ''first name'' \<and> header_key ''Naam'' = ''naam'' \<and>
   columns naam_first_frame = [''Naam'', ''First Name'', ''Last Name''] \<and>
   first_name_col naam_first_frame = Some ''Naam'' \<and>
   first_name_col naam_first_frame \<noteq> Some ''First Name'' \<and>
   user_name (first_name_col naam_first_frame) (last_name_col naam_first_frame)
     row_three_names = ''jane doe doe''"
  by code_simp

text \<open>
  C5, amended. The first-name column of an uploaded table is exactly its leftmost column
  whose lower-cased, stripped header is one of \<open>first name\<close>, \<open>voor naam\<close>, \<open>naam\<close>, in
  whatever order these aliases are listed, and there is none exactly when no header is
  one of them; likewise the last-name column is exactly the leftmost column whose header
  is \<open>last name\<close> or \<open>achternaam\<close>. When both are found, the cells of these two columns
  are the name components of every row.
\<close>

theorem name_cols_leftmost:
  "(first_name_col df = Some f \<longleftrightarrow>
      (\<exists>i < length (columns df). columns df ! i = f \<and>
         header_key f \<in> {''first name'', ''voor naam'', ''naam''} \<and>
         (\<forall>j < i. header_key (columns df ! j) \<notin> {''first name'', ''voor naam'', ''naam''}))) \<and>
   (first_name_col df = None \<longleftrightarrow>
      (\<forall>c \<in> set (columns df). header_key c \<notin> {''first name'', ''voor naam'', ''naam''})) \<and>
   (last_name_col df = Some l \<longleftrightarrow>
      (\<exists>i < length (columns df). columns df ! i = l \<and>
         header_key l \<in> {''last name'', ''achternaam''} \<and>
         (\<forall>j < i. header_key (columns df ! j) \<notin> {''last name'', ''achternaam''}))) \<and>
   (last_name_col df = None \<longleftrightarrow>
      (\<forall>c \<in> set (columns df). header_key c \<notin> {''last name'', ''achternaam''})) \<and>
   (first_name_col df = Some f \<and> last_name_col df = Some l \<longrightarrow>
      user_name (first_name_col df) (last_name_col df) row =
        strip (normalize_text (row f) @ '' '' @ normalize_text (row l)))"
proof (intro conjI impI)
  show "first_name_col df = Some f \<longleftrightarrow>
      (\<exists>i < length (columns df). columns df ! i = f \<and>
         header_key f \<in> {''first name'', ''voor naam'', ''naam''} \<and>
         (\<forall>j < i. header_key (columns df ! j) \<notin> {''first name'', ''voor naam'', ''naam''}))"
    unfolding first_name_col_def find_is_leftmost by simp
  show "first_name_col df = None \<longleftrightarrow>
      (\<forall>c \<in> set (columns df). header_key c \<notin> {''first name'', ''voor naam'', ''naam''})"
    by (auto simp: first_name_col_def find_None_iff)
  show "last_name_col df = Some l \<longleftrightarrow>
      (\<exists>i < length (columns df). columns df ! i = l \<and>
         header_key l \<in> {''last name'', ''achternaam''} \<and>
         (\<forall>j < i. header_key (columns df ! j) \<notin> {''last name'', ''achternaam''}))"
    unfolding last_name_col_def find_is_leftmost by simp
  show "last_name_col df = None \<longleftrightarrow>
      (\<forall>c \<in> set (columns df). header_key c \<notin> {''last name'', ''achternaam''})"
    by (auto simp: last_name_col_def find_None_iff)
next
  assume b: "first_name_col df = Some f \<and> last_name_col df = Some l"
  then have "f \<noteq> ''''"
    by (auto simp: first_name_col_def find_Some_iff header_key_def strip_def lower_def)
  moreover from b have "l \<noteq> ''''"
    by (auto simp: last_name_col_def find_Some_iff header_key_def strip_def lower_def)
  ultimately show "user_name (first_name_col df) (last_name_col df) row =
      strip (normalize_text (row f) @ '' '' @ normalize_text (row l))"
    using b by (simp add: user_name_def)
qed

theorem name_cols_leftmost_witness:
  "columns naam_first_frame = [''Naam'', ''First Name'', ''Last Name''] \<and>
   header_key ''Naam'' = ''naam'' \<and> header_key ''First Name'' = ''first name'' \<and>
   header_key ''Last Name'' = ''last name'' \<and>
   first_name_col naam_first_frame = Some ''Naam'' \<and>
   last_name_col naam_first_frame = Some ''Last Name'' \<and>
   user_name (first_name_col naam_first_frame) (last_name_col naam_first_frame) row_three_names =
     strip (normalize_text (row_three_names ''Naam'') @ '' '' @
            normalize_text (row_three_names ''Last Name'')) \<and>
   first_name_col first_only_frame = Some ''First Name'' \<and>
   last_name_col first_only_frame = None"
proof -
  have c: "columns naam_first_frame = [''Naam'', ''First Name'', ''Last Name'']"
    by (simp add: naam_first_frame_def)
  have c': "columns first_only_frame = [''First Name'', ''Company'']"
    by (simp add: first_only_frame_def)
  have k: "header_key ''Naam'' = ''naam''" "header_key ''First Name'' = ''first name''"
    "header_key ''Last Name'' = ''last name''" "header_key ''Company'' = ''company''"
    by code_simp+
  note t = name_cols_leftmost [of naam_first_frame "''Naam''" "''Last Name''" row_three_names]
  note t' = name_cols_leftmost [of first_only_frame "''First Name''" "''Last Name''" row_jane]
  have "0 < length (columns naam_first_frame) \<and> columns naam_first_frame ! 0 = ''Naam'' \<and>
         header_key ''Naam'' \<in> {''first name'', ''voor naam'', ''naam''} \<and>
         (\<forall>j < 0. header_key (columns naam_first_frame ! j) \<notin>
            {''first name'', ''voor naam'', ''naam''})"
    by (simp add: c k)
  then have "\<exists>i < length (columns naam_first_frame). columns naam_first_frame ! i = ''Naam'' \<and>
         header_key ''Naam'' \<in> {''first name'', ''voor naam'', ''naam''} \<and>
         (\<forall>j < i. header_key (columns naam_first_frame ! j) \<notin>
            {''first name'', ''voor naam'', ''naam''})"
    by blast
  with t have f: "first_name_col naam_first_frame = Some ''Naam''" by blast
  have "\<forall>j < 2. header_key (columns naam_first_frame ! j) \<notin> {''last name'', ''achternaam''}"
    by (simp add: c k less_Suc_eq numeral_2_eq_2)
  then have "2 < length (columns naam_first_frame) \<and> columns naam_first_frame ! 2 = ''Last Name'' \<and>
         header_key ''Last Name'' \<in> {''last name'', ''achternaam''} \<and>
         (\<forall>j < 2. header_key (columns naam_first_frame ! j) \<notin> {''last name'', ''achternaam''})"
    by (simp add: c k)
  then have "\<exists>i < length (columns naam_first_frame). columns naam_first_frame ! i = ''Last Name'' \<and>
         header_key ''Last Name'' \<in> {''last name'', ''achternaam''} \<and>
         (\<forall>j < i. header_key (columns naam_first_frame ! j) \<notin> {''last name'', ''achternaam''})"
    by blast
  with t have l: "last_name_col naam_first_frame = Some ''Last Name''" by blast
  from f l t have u: "user_name (first_name_col naam_first_frame) (last_name_col naam_first_frame)
      row_three_names =
     strip (normalize_text (row_three_names ''Naam'') @ '' '' @
            normalize_text (row_three_names ''Last Name''))" by blast
  have "\<forall>c \<in> set (columns first_only_frame). header_key c \<notin> {''last name'', ''achternaam''}"
    by (simp add: c' k)
  with t' have n: "last_name_col first_only_frame = None" by blast
  have f': "first_name_col first_only_frame = Some ''First Name''" by code_simp
  from c k(1,2,3) f l u f' n show ?thesis by blast
qed

text \<open>
  C6. The empty key is inert: the loader never puts the empty text into a names set or a
  companies set, so none of the four sets built at start-up holds it; and a row whose
  user name and user company are both empty matches neither group, whatever the sets
  hold, and is given the status \<open>Safe\<close> and the colour \<open>FFFFFF\<close>.
\<close>

theorem empty_key_inert:
  "'''' \<notin> fst (load_database_set w names) \<and> '''' \<notin> snd (load_database_set w names) \<and>
   '''' \<notin> imneo_names (startup w) \<and> '''' \<notin> imneo_companies (startup w) \<and>
   '''' \<notin> xclient_names (startup w) \<and> '''' \<notin> xclient_companies (startup w) \<and>
   (user_name (first_name_col df) (last_name_col df) row = '''' \<and>
    user_company (company_col df) row = '''' \<longrightarrow>
      check_row g m df row = (''Safe'', ''FFFFFF''))"
proof -
  have a: "'''' \<notin> fst (load_database_set w ns) \<and> '''' \<notin> snd (load_database_set w ns)" for ns
    using load_database_set_no_empty [of w ns] by (simp add: no_empty_def)
  then have "'''' \<notin> imneo_names (startup w) \<and> '''' \<notin> imneo_companies (startup w) \<and>
   '''' \<notin> xclient_names (startup w) \<and> '''' \<notin> xclient_companies (startup w)"
    by (simp add: startup_def Let_def)
  with a [of names] show ?thesis by (simp add: check_row_def classify_empty_keys)
qed

theorem empty_key_inert_witness:
  "user_name (first_name_col example_frame) (last_name_col example_frame) row_blank = '''' \<and>
   user_company (company_col example_frame) row_blank = '''' \<and>
   check_row example_groups (Some ''candidate'') example_frame row_blank = (''Safe'', ''FFFFFF'') \<and>
   '''' \<notin> fst (load_database_set example_world XCLIENT_FILES)"
proof -
  have n: "user_name (first_name_col example_frame) (last_name_col example_frame) row_blank = ''''"
    by code_simp
  have c: "user_company (company_col example_frame) row_blank = ''''"
    by code_simp
  from n c empty_key_inert [of example_world XCLIENT_FILES example_frame row_blank
      example_groups "Some ''candidate''"]
  show ?thesis by blast
qed

text \<open>
  C7. Loading fails open: when the folder does not exist the loader returns two empty
  sets for any list of files; a file that does not exist is skipped, the files before and
  after it being loaded as if it were not listed; and with the folder absent every row of
  every uploaded table is given the status \<open>Safe\<close> and the colour \<open>FFFFFF\<close>.
\<close>

theorem fail_open_loading:
  "(\<not> exists w DATABASE_FOLDER \<longrightarrow> load_database_set w names = ({}, {})) \<and>
   (\<not> exists w (path_join DATABASE_FOLDER name) \<longrightarrow>
      load_database_set w (before @ name # after) = load_database_set w (before @ after)) \<and>
   (\<not> exists w DATABASE_FOLDER \<longrightarrow> check_row (startup w) m df row = (''Safe'', ''FFFFFF''))"
proof (intro conjI impI)
  assume "\<not> exists w DATABASE_FOLDER"
  then show e: "load_database_set w names = ({}, {})" for names
    by (simp add: load_database_set_def)
  then show "check_row (startup w) m df row = (''Safe'', ''FFFFFF'')"
    by (simp add: startup_def Let_def check_row_def classify_def is_imneo_def is_xclient_def)
next
  assume "\<not> exists w (path_join DATABASE_FOLDER name)"
  then have "load_file w name st = st" for st
    by (simp add: load_file_def)
  then show "load_database_set w (before @ name # after) = load_database_set w (before @ after)"
    by (simp add: load_database_set_def load_files_append)
qed

theorem fail_open_loading_witness:
  "\<not> exists absent_world DATABASE_FOLDER \<and>
   load_database_set absent_world IMNEO_FILES = ({}, {}) \<and>
   check_row (startup absent_world) (Some ''candidate'') example_frame row_jane =
     (''Safe'', ''FFFFFF'') \<and>
   \<not> exists example_world (path_join DATABASE_FOLDER ''imneo.csv'') \<and>
   load_database_set example_world ([] @ ''imneo.csv'' # [''imneo1.xlsx'', ''imneo2.xlsx'']) =
     load_database_set example_world ([] @ [''imneo1.xlsx'', ''imneo2.xlsx'']) \<and>
   load_database_set example_world [''imneo1.xlsx'', ''imneo2.xlsx''] = ({''jane''}, {})"
proof -
  have a: "\<not> exists absent_world DATABASE_FOLDER"
    by (simp add: absent_world_def)
  have b: "\<not> exists example_world (path_join DATABASE_FOLDER ''imneo.csv'')"
    by (simp add: example_world_def path_join_def DATABASE_FOLDER_def)
  have c: "load_database_set example_world [''imneo1.xlsx'', ''imneo2.xlsx''] = ({''jane''}, {})"
    by code_simp
  from a b c
    fail_open_loading [of absent_world IMNEO_FILES "''imneo.csv''" "[]"
      "[''imneo1.xlsx'', ''imneo2.xlsx'']" "Some ''candidate''" example_frame row_jane]
    fail_open_loading [of example_world IMNEO_FILES "''imneo.csv''" "[]"
      "[''imneo1.xlsx'', ''imneo2.xlsx'']" "Some ''candidate''" example_frame row_jane]
  show ?thesis by blast
qed

text \<open>
  C8. In the loader the company field of a row is taken first-match-wins in the order
  \<open>company name\<close>, \<open>company\<close>, \<open>huidig bedrijf\<close>, \<open>currrent company\<close>,
  \<open>current company\<close>, \<open>company table data\<close>: when the alias at position \<open>i\<close> of this
  list is a header of the row and no earlier alias is, the field is what the row holds
  under that alias (the cell \<open>v\<close> when it is the only one there); when no alias is a
  header the field is the empty text, which normalises to the empty text; and the
  extraction never raises.
\<close>

theorem company_field_first_match_wins:
  "(i < length company_field_priority \<and>
    contains row (company_field_priority ! i) \<and>
    (\<forall>j < i. \<not> contains row (company_field_priority ! j)) \<longrightarrow>
      company_of row = getitem row (company_field_priority ! i) \<and>
      (cells_under row (company_field_priority ! i) = [v] \<longrightarrow> company_of row = Inr (Scalar v))) \<and>
   ((\<forall>a \<in> set company_field_priority. \<not> contains row a) \<longrightarrow>
      company_of row = Inr (Scalar (Text '''')) \<and>
      normalize_field (Scalar (Text '''')) = Inr '''') \<and>
   company_of row \<noteq> Inl e"
proof (intro conjI impI)
  assume h: "\<forall>a \<in> set company_field_priority. \<not> contains row a"
  then have "first_match company_field_priority row = None"
    by (simp add: first_match_def find_None_iff)
  then show "company_of row = Inr (Scalar (Text ''''))"
    by (simp add: company_of_first_match)
  show "normalize_field (Scalar (Text '''')) = Inr ''''"
    by (simp add: normalize_field_def normalize_text_def lower_def strip_def)
next
  show "company_of row \<noteq> Inl e"
    by (rule company_of_never_raises)
next
  assume h: "i < length company_field_priority \<and>
    contains row (company_field_priority ! i) \<and>
    (\<forall>j < i. \<not> contains row (company_field_priority ! j))"
  then have "first_match company_field_priority row = Some (company_field_priority ! i)"
    unfolding first_match_def find_is_leftmost by blast
  then show g: "company_of row = getitem row (company_field_priority ! i)"
    by (simp add: company_of_first_match)
  assume "cells_under row (company_field_priority ! i) = [v]"
  with g show "company_of row = Inr (Scalar v)"
    by (simp add: getitem_single)
qed

theorem company_field_first_match_wins_witness:
  "company_field_priority ! 1 = ''company'' \<and>
   contains series_two_companies ''company'' \<and>
   contains series_two_companies ''company table data'' \<and>
   \<not> contains series_two_companies ''company name'' \<and>
   company_of series_two_companies = Inr (Scalar (Text ''Acme Corp'')) \<and>
   first_match company_field_priority series_no_company = None \<and>
   company_of series_no_company = Inr (Scalar (Text ''''))"
proof -
  have p: "company_field_priority ! 1 = ''company''"
    by (simp add: company_field_priority_def)
  have i: "1 < length company_field_priority"
    by (simp add: company_field_priority_def)
  have c: "contains series_two_companies ''company''"
    "contains series_two_companies ''company table data''"
    "\<not> contains series_two_companies ''company name''"
    by (simp_all add: contains_def series_two_companies_def)
  have b: "\<forall>j < 1. \<not> contains series_two_companies (company_field_priority ! j)"
    using c(3) by (simp add: company_field_priority_def)
  have u: "cells_under series_two_companies (company_field_priority ! 1) = [Text ''Acme Corp'']"
    unfolding p by (simp add: cells_under_def series_two_companies_def)
  have n: "\<forall>a \<in> set company_field_priority. \<not> contains series_no_company a"
    by (simp add: company_field_priority_def contains_def series_no_company_def)
  from c(1) have d: "contains series_two_companies (company_field_priority ! 1)"
    unfolding p .
  from company_field_first_match_wins [of 1 series_two_companies "Text ''Acme Corp''"] i d b u
  have "company_of series_two_companies = Inr (Scalar (Text ''Acme Corp''))"
    by blast
  moreover from company_field_first_match_wins [of 0 series_no_company] n
  have "company_of series_no_company = Inr (Scalar (Text ''''))"
    by blast
  moreover from n have "first_match company_field_priority series_no_company = None"
    by (simp add: first_match_def find_None_iff)
  ultimately show ?thesis using p c by blast
qed




end
